theory Spec2Isabelle
  imports Main
begin

section \<open>Data model\<close>

text \<open>
  A shallow embedding of \<^verbatim>\<open>notebooks/06_load_excel_files/procedure.py\<close>.
  The procedure talks to four outside services: the stage (\<^verbatim>\<open>session.file.get\<close>),
  the local file system (\<^verbatim>\<open>open\<close>, \<^verbatim>\<open>os.path.exists\<close>, \<^verbatim>\<open>os.remove\<close>), the spreadsheet
  and data-frame libraries, and the table store (\<^verbatim>\<open>save_as_table\<close>). Their state is
  collected in one record that is passed through every call; an exception is the
  \<open>Inl\<close> side of a sum.
\<close>

datatype cell = IntCell int | StrCell string | NoneCell

type_synonym row = "cell list"

text \<open>What \<^verbatim>\<open>sheet.values\<close> yields: the rows of the sheet, top to bottom.\<close>

type_synonym worksheet = "row list"

text \<open>A workbook is its sheets in order, each with its title.\<close>

type_synonym workbook = "(string \<times> worksheet) list"

datatype file_content = Xlsx workbook | Corrupt

record dataframe =
  columns :: row
  body :: "row list"

datatype error =
    StagingError
  | OpenError
  | InvalidFileError
  | KeyError string
  | StopIteration
  | ValueError
  | WriteError
  | CleanupError
  | QueryError

text \<open>The messages of the module's logger, one constructor per format string.\<close>

datatype log_entry =
    Info_attempting_get string
  | Info_loaded string
  | Error_processing string error
  | Info_found nat
  | Info_end

record mapping_record =
  STAGE_FILE_PATH :: string
  WORKSHEET_NAME :: string
  TARGET_TABLE :: string

text \<open>
  The world the procedure runs in. The first four fields change during a run. The
  others describe how the outside services answer and never change: what the mapping
  query returns, and for which stage path, local path or table a service call raises.
\<close>

record world =
  stage :: "string \<rightharpoonup> file_content"
  local_files :: "string \<rightharpoonup> file_content"
  tables :: "string \<rightharpoonup> dataframe"
  log :: "log_entry list"
  query_result :: "error + mapping_record list"
  get_fails :: "string \<Rightarrow> bool"
  open_fails :: "string \<Rightarrow> bool"
  write_fails :: "string \<Rightarrow> bool"
  remove_fails :: "string \<Rightarrow> bool"

section \<open>The services the procedure calls\<close>

text \<open>\<^verbatim>\<open>os.path.basename\<close>: everything after the last slash.\<close>

definition basename :: "string \<Rightarrow> string" where
  "basename p = rev (takeWhile (\<lambda>c. c \<noteq> CHR ''/'') (rev p))"

text \<open>\<^verbatim>\<open>os.path.join\<close> of two components (posixpath).\<close>

definition path_join :: "string \<Rightarrow> string \<Rightarrow> string" where
  "path_join a b =
     (if b \<noteq> [] \<and> hd b = CHR ''/'' then b
      else if a = [] \<or> last a = CHR ''/'' then a @ b
      else a @ ''/'' @ b)"

definition logger :: "log_entry \<Rightarrow> world \<Rightarrow> world" where
  "logger m w = w\<lparr>log := log w @ [m]\<rparr>"

text \<open>
  \<^verbatim>\<open>session.file.get(stage_file_path, local_directory)\<close>, a service outside the
  repository, taken as the spec describes it: it raises when the copy cannot complete
  or the stage has no such file, and then leaves the local files alone; otherwise the
  file is copied to the local directory under its base name, replacing a file of that
  name.
\<close>

definition file_get :: "world \<Rightarrow> string \<Rightarrow> string \<Rightarrow> error + world" where
  "file_get w stage_file_path local_directory =
     (if get_fails w stage_file_path then Inl StagingError
      else case stage w stage_file_path of
             None \<Rightarrow> Inl StagingError
           | Some c \<Rightarrow>
               Inr (w\<lparr>local_files :=
                        (local_files w)(path_join local_directory (basename stage_file_path) \<mapsto> c)\<rparr>))"

text \<open>\<^verbatim>\<open>open(full_local_path, 'rb')\<close>.\<close>

definition open_rb :: "world \<Rightarrow> string \<Rightarrow> error + file_content" where
  "open_rb w full_local_path =
     (if open_fails w full_local_path then Inl OpenError
      else case local_files w full_local_path of
             None \<Rightarrow> Inl OpenError
           | Some c \<Rightarrow> Inr c)"

text \<open>\<^verbatim>\<open>load_workbook(f)\<close>.\<close>

definition load_workbook :: "file_content \<Rightarrow> error + workbook" where
  "load_workbook f = (case f of Corrupt \<Rightarrow> Inl InvalidFileError | Xlsx wb \<Rightarrow> Inr wb)"

text \<open>\<^verbatim>\<open>workbook[worksheet_name]\<close>: the first sheet with that very title, or a KeyError.\<close>

definition getitem :: "workbook \<Rightarrow> string \<Rightarrow> error + worksheet" where
  "getitem wb worksheet_name =
     (case map_of wb worksheet_name of
        None \<Rightarrow> Inl (KeyError worksheet_name)
      | Some sheet \<Rightarrow> Inr sheet)"

text \<open>
  \<^verbatim>\<open>pd.DataFrame(data, columns=columns)\<close>. A sheet yields every row at the sheet's
  full width, so the header and the rows after it have one length, and the frame is
  the header with those rows, unchanged. Data of another width than the column names
  does not come out of a sheet; it is rejected here.
\<close>

definition DataFrame :: "row list \<Rightarrow> row \<Rightarrow> error + dataframe" where
  "DataFrame data cols =
     (if list_all (\<lambda>r. length r = length cols) data
      then Inr \<lparr>columns = cols, body = data\<rparr>
      else Inl ValueError)"

text \<open>
  \<^verbatim>\<open>session.create_dataframe(df).write.mode("overwrite").save_as_table(target_table)\<close>:
  the table is replaced as a whole, or the store raises and keeps it as it was.
\<close>

definition save_as_table :: "world \<Rightarrow> string \<Rightarrow> dataframe \<Rightarrow> error + world" where
  "save_as_table w target_table df =
     (if write_fails w target_table then Inl WriteError
      else Inr (w\<lparr>tables := (tables w)(target_table \<mapsto> df)\<rparr>))"

section \<open>The per-file load\<close>

text \<open>The body of the \<^verbatim>\<open>try\<close> block, lines 29 to 44.\<close>

definition try_body :: "world \<Rightarrow> string \<Rightarrow> string \<Rightarrow> string \<Rightarrow> error + world" where
  "try_body w full_local_path worksheet_name target_table =
     (case open_rb w full_local_path of
        Inl e \<Rightarrow> Inl e
      | Inr f \<Rightarrow>
     (case load_workbook f of
        Inl e \<Rightarrow> Inl e
      | Inr wb \<Rightarrow>
     (case getitem wb worksheet_name of
        Inl e \<Rightarrow> Inl e
      | Inr data \<Rightarrow>
     (case data of
        [] \<Rightarrow> Inl StopIteration
      | cols # rest \<Rightarrow>
     (case DataFrame rest cols of
        Inl e \<Rightarrow> Inl e
      | Inr df \<Rightarrow>
     (case save_as_table w target_table df of
        Inl e \<Rightarrow> Inl e
      | Inr w' \<Rightarrow> Inr (logger (Info_loaded target_table) w')))))))"

text \<open>
  The \<^verbatim>\<open>finally\<close> block, lines 50 and 51. \<open>Inl\<close> is \<^verbatim>\<open>os.remove\<close> raising, with the
  file still there.
\<close>

definition cleanup :: "world \<Rightarrow> string \<Rightarrow> error + world" where
  "cleanup w full_local_path =
     (if local_files w full_local_path \<noteq> None
      then (if remove_fails w full_local_path then Inl CleanupError
            else Inr (w\<lparr>local_files := (local_files w)(full_local_path := None)\<rparr>))
      else Inr w)"

text \<open>
  \<^verbatim>\<open>load_excel_worksheet_to_table_local\<close>. The stage fetch of line 23 stands before the
  \<^verbatim>\<open>try\<close>: when it raises, neither the handler nor the \<^verbatim>\<open>finally\<close> block runs. An
  exception of the \<^verbatim>\<open>try\<close> body is logged and raised again; the \<^verbatim>\<open>finally\<close> block
  runs on both ways out, and an exception raised there replaces the pending one.
\<close>

definition load_excel_worksheet_to_table_local ::
  "world \<Rightarrow> string \<Rightarrow> string \<Rightarrow> string \<Rightarrow> (error + bool) \<times> world" where
  "load_excel_worksheet_to_table_local w stage_file_path worksheet_name target_table =
     (let local_directory = ''/tmp/'';
          file_name = basename stage_file_path;
          w1 = logger (Info_attempting_get stage_file_path) w
      in case file_get w1 stage_file_path local_directory of
           Inl e \<Rightarrow> (Inl e, w1)
         | Inr w2 \<Rightarrow>
             (let full_local_path = path_join local_directory file_name;
                  (pending, w3) =
                     (case try_body w2 full_local_path worksheet_name target_table of
                        Inl e \<Rightarrow> (Some e, logger (Error_processing file_name e) w2)
                      | Inr w' \<Rightarrow> (None, w'))
              in case cleanup w3 full_local_path of
                   Inl ce \<Rightarrow> (Inl ce, w3)
                 | Inr w4 \<Rightarrow>
                     (case pending of
                        Some e \<Rightarrow> (Inl e, w4)
                      | None \<Rightarrow> (Inr True, w4))))"

section \<open>The entry point\<close>

text \<open>The \<^verbatim>\<open>for\<close> loop of lines 74 to 84: the first exception leaves the loop.\<close>

fun load_rows :: "world \<Rightarrow> mapping_record list \<Rightarrow> (error + unit) \<times> world" where
  "load_rows w [] = (Inr (), w)"
| "load_rows w (r # rs) =
     (case load_excel_worksheet_to_table_local w
             (STAGE_FILE_PATH r) (WORKSHEET_NAME r) (TARGET_TABLE r) of
        (Inl e, w') \<Rightarrow> (Inl e, w')
      | (Inr _, w') \<Rightarrow> load_rows w' rs)"

text \<open>\<^verbatim>\<open>session.sql(mapping_query).collect()\<close>: the rows come from the query engine.\<close>

definition sql_collect :: "world \<Rightarrow> error + mapping_record list" where
  "sql_collect w = query_result w"

definition success_status :: string where
  "success_status = ''SUCCESS: Excel files loaded into Snowflake tables.''"

definition main :: "world \<Rightarrow> (error + string) \<times> world" where
  "main w =
     (case sql_collect w of
        Inl e \<Rightarrow> (Inl e, w)
      | Inr mapping_df_rows \<Rightarrow>
          (case load_rows (logger (Info_found (length mapping_df_rows)) w) mapping_df_rows of
             (Inl e, w') \<Rightarrow> (Inl e, w')
           | (Inr _, w') \<Rightarrow> (Inr success_status, logger Info_end w')))"

section \<open>Notions used to state the properties\<close>

text \<open>The transient local file of a stage path: \<^verbatim>\<open>/tmp/\<close> joined with the base name.\<close>

definition local_path :: "string \<Rightarrow> string" where
  "local_path stage_file_path = path_join ''/tmp/'' (basename stage_file_path)"

text \<open>
  The table a mapping record describes: the first row of the named sheet of the staged
  workbook as column names, the rows after it as the body.
\<close>

definition sheet_table :: "world \<Rightarrow> mapping_record \<Rightarrow> dataframe option" where
  "sheet_table w r =
     (case stage w (STAGE_FILE_PATH r) of
        Some (Xlsx wb) \<Rightarrow>
          (case map_of wb (WORKSHEET_NAME r) of
             Some (cols # rest) \<Rightarrow> Some \<lparr>columns = cols, body = rest\<rparr>
           | _ \<Rightarrow> None)
      | _ \<Rightarrow> None)"

text \<open>
  A record is valid when no service call made for it raises: the stage holds a workbook
  under its path, the workbook has the named sheet with a header row and a body of the
  header's width, and fetching, opening, writing and deleting are not refused.
\<close>

definition valid_record :: "world \<Rightarrow> mapping_record \<Rightarrow> bool" where
  "valid_record w r =
     (\<not> get_fails w (STAGE_FILE_PATH r)
      \<and> \<not> open_fails w (local_path (STAGE_FILE_PATH r))
      \<and> \<not> write_fails w (TARGET_TABLE r)
      \<and> \<not> remove_fails w (local_path (STAGE_FILE_PATH r))
      \<and> (case sheet_table w r of
           None \<Rightarrow> False
         | Some df \<Rightarrow> list_all (\<lambda>row. length row = length (columns df)) (body df)))"

text \<open>What one successful load writes to the log, and the world it leaves.\<close>

definition record_log :: "mapping_record \<Rightarrow> log_entry list" where
  "record_log r = [Info_attempting_get (STAGE_FILE_PATH r), Info_loaded (TARGET_TABLE r)]"

definition loaded :: "world \<Rightarrow> mapping_record \<Rightarrow> world" where
  "loaded w r =
     w\<lparr>local_files := (local_files w)(local_path (STAGE_FILE_PATH r) := None),
       tables := (tables w)(TARGET_TABLE r := sheet_table w r),
       log := log w @ record_log r\<rparr>"

section \<open>Example worlds\<close>

text \<open>
  The two mapping rows of the query in \<^verbatim>\<open>main\<close>, a stage that holds both workbooks, and
  a store whose table \<^verbatim>\<open>ORDER_DETAIL\<close> has contents from an earlier load.
\<close>

definition order_detail_path :: string where
  "order_detail_path = ''@INTEGRATIONS.FROSTBYTE_RAW_STAGE/intro/order_detail.xlsx''"

definition location_path :: string where
  "location_path = ''@INTEGRATIONS.FROSTBYTE_RAW_STAGE/intro/location.xlsx''"

definition menu_path :: string where
  "menu_path = ''@INTEGRATIONS.FROSTBYTE_RAW_STAGE/intro/menu.xlsx''"

definition order_detail_sheet :: worksheet where
  "order_detail_sheet =
     [[StrCell ''ID'', StrCell ''NAME''],
      [IntCell 1, StrCell ''Alice''],
      [IntCell 2, StrCell ''Bob'']]"

definition order_detail_book :: workbook where
  "order_detail_book = [(''order_detail'', order_detail_sheet), (''blank'', [])]"

definition location_sheet :: worksheet where
  "location_sheet = [[StrCell ''LOCATION_ID'', StrCell ''CITY''], [IntCell 7, StrCell ''Paris'']]"

definition location_book :: workbook where
  "location_book = [(''location'', location_sheet)]"

definition old_table :: dataframe where
  "old_table = \<lparr>columns = [StrCell ''OLD''], body = [[IntCell 0], [IntCell 9]]\<rparr>"

definition order_detail_row :: mapping_record where
  "order_detail_row =
     \<lparr>STAGE_FILE_PATH = order_detail_path, WORKSHEET_NAME = ''order_detail'',
      TARGET_TABLE = ''ORDER_DETAIL''\<rparr>"

definition location_row :: mapping_record where
  "location_row =
     \<lparr>STAGE_FILE_PATH = location_path, WORKSHEET_NAME = ''location'',
      TARGET_TABLE = ''LOCATION''\<rparr>"

definition demo_world :: world where
  "demo_world =
     \<lparr>stage = [order_detail_path \<mapsto> Xlsx order_detail_book,
               location_path \<mapsto> Xlsx location_book],
      local_files = Map.empty,
      tables = [''ORDER_DETAIL'' \<mapsto> old_table],
      log = [],
      query_result = Inr [order_detail_row, location_row],
      get_fails = (\<lambda>_. False),
      open_fails = (\<lambda>_. False),
      write_fails = (\<lambda>_. False),
      remove_fails = (\<lambda>_. False)\<rparr>"

text \<open>The same world with a local file left behind under the name of a workbook that is
  not on the stage.\<close>

definition stale_world :: world where
  "stale_world = demo_world\<lparr>local_files := [''/tmp/menu.xlsx'' \<mapsto> Corrupt]\<rparr>"

text \<open>Worlds in which one service refuses: the resolver, the table write, the deletion.\<close>

definition query_fail_world :: world where
  "query_fail_world = demo_world\<lparr>query_result := Inl QueryError\<rparr>"

definition write_fail_world :: world where
  "write_fail_world = demo_world\<lparr>write_fails := (\<lambda>t. t = ''ORDER_DETAIL'')\<rparr>"

definition remove_fail_world :: world where
  "remove_fail_world = demo_world\<lparr>remove_fails := (\<lambda>_. True)\<rparr>"

text \<open>
  Resolver answers of another kind: one record that names the sheet without rows, and
  two records that name the same destination table.
\<close>

definition blank_row :: mapping_record where
  "blank_row =
     \<lparr>STAGE_FILE_PATH = order_detail_path, WORKSHEET_NAME = ''blank'',
      TARGET_TABLE = ''ORDER_DETAIL''\<rparr>"

definition location_again_row :: mapping_record where
  "location_again_row =
     \<lparr>STAGE_FILE_PATH = location_path, WORKSHEET_NAME = ''location'',
      TARGET_TABLE = ''ORDER_DETAIL''\<rparr>"

definition blank_world :: world where
  "blank_world = demo_world\<lparr>query_result := Inr [blank_row]\<rparr>"

definition same_target_world :: world where
  "same_target_world =
     demo_world\<lparr>query_result := Inr [order_detail_row, location_again_row]\<rparr>"

section \<open>Basic facts\<close>

lemma logger_fields [simp]:
  "stage (logger m w) = stage w"
  "local_files (logger m w) = local_files w"
  "tables (logger m w) = tables w"
  "log (logger m w) = log w @ [m]"
  "query_result (logger m w) = query_result w"
  "get_fails (logger m w) = get_fails w"
  "open_fails (logger m w) = open_fails w"
  "write_fails (logger m w) = write_fails w"
  "remove_fails (logger m w) = remove_fails w"
  by (simp_all add: logger_def)

lemmas load_defs = load_excel_worksheet_to_table_local_def file_get_def try_body_def
  cleanup_def open_rb_def load_workbook_def getitem_def DataFrame_def save_as_table_def
  local_path_def

lemmas load_splits = if_splits sum.splits option.splits list.splits file_content.splits
  prod.splits

text \<open>The paths of the example worlds.\<close>

lemma demo_paths [simp]:
  "basename order_detail_path = ''order_detail.xlsx''"
  "basename location_path = ''location.xlsx''"
  "basename menu_path = ''menu.xlsx''"
  "local_path order_detail_path = ''/tmp/order_detail.xlsx''"
  "local_path location_path = ''/tmp/location.xlsx''"
  "local_path menu_path = ''/tmp/menu.xlsx''"
  "path_join ''/tmp/'' ''order_detail.xlsx'' = ''/tmp/order_detail.xlsx''"
  "path_join ''/tmp/'' ''location.xlsx'' = ''/tmp/location.xlsx''"
  "path_join ''/tmp/'' ''menu.xlsx'' = ''/tmp/menu.xlsx''"
  "order_detail_path \<noteq> location_path" "location_path \<noteq> order_detail_path"
  "menu_path \<noteq> location_path" "menu_path \<noteq> order_detail_path"
  by (simp_all add: local_path_def basename_def path_join_def order_detail_path_def
        location_path_def menu_path_def)

lemma demo_world_fields [simp]:
  "stage demo_world = [order_detail_path \<mapsto> Xlsx order_detail_book,
                       location_path \<mapsto> Xlsx location_book]"
  "local_files demo_world = Map.empty"
  "tables demo_world = [''ORDER_DETAIL'' \<mapsto> old_table]"
  "log demo_world = []"
  "query_result demo_world = Inr [order_detail_row, location_row]"
  "get_fails demo_world = (\<lambda>_. False)"
  "open_fails demo_world = (\<lambda>_. False)"
  "write_fails demo_world = (\<lambda>_. False)"
  "remove_fails demo_world = (\<lambda>_. False)"
  by (simp_all add: demo_world_def)

lemma demo_row_fields [simp]:
  "STAGE_FILE_PATH order_detail_row = order_detail_path"
  "WORKSHEET_NAME order_detail_row = ''order_detail''"
  "TARGET_TABLE order_detail_row = ''ORDER_DETAIL''"
  "STAGE_FILE_PATH location_row = location_path"
  "WORKSHEET_NAME location_row = ''location''"
  "TARGET_TABLE location_row = ''LOCATION''"
  by (simp_all add: order_detail_row_def location_row_def)

lemma demo_sheet_tables [simp]:
  "sheet_table demo_world order_detail_row
     = Some \<lparr>columns = [StrCell ''ID'', StrCell ''NAME''],
             body = [[IntCell 1, StrCell ''Alice''], [IntCell 2, StrCell ''Bob'']]\<rparr>"
  "sheet_table demo_world location_row
     = Some \<lparr>columns = [StrCell ''LOCATION_ID'', StrCell ''CITY''],
             body = [[IntCell 7, StrCell ''Paris'']]\<rparr>"
  by (simp_all add: sheet_table_def order_detail_book_def order_detail_sheet_def
        location_book_def location_sheet_def)

lemma demo_valid [simp]:
  "valid_record demo_world order_detail_row"
  "valid_record demo_world location_row"
  by (simp_all add: valid_record_def)

section \<open>One load\<close>

text \<open>A load of a valid record succeeds, and only a valid record loads.\<close>

lemma load_valid:
  assumes "valid_record w r"
  shows "load_excel_worksheet_to_table_local w
           (STAGE_FILE_PATH r) (WORKSHEET_NAME r) (TARGET_TABLE r) = (Inr True, loaded w r)"
  using assms
  by (auto simp: valid_record_def sheet_table_def loaded_def record_log_def
        load_defs logger_def Let_def split: load_splits)

lemma load_success_valid:
  assumes "fst (load_excel_worksheet_to_table_local w
           (STAGE_FILE_PATH r) (WORKSHEET_NAME r) (TARGET_TABLE r)) = Inr b"
  shows "valid_record w r"
  using assms
  by (auto simp: valid_record_def sheet_table_def load_defs Let_def split: load_splits)

text \<open>A fetch that raises ends the load at once.\<close>

lemma load_get_raises:
  assumes "file_get (logger (Info_attempting_get p) w) p ''/tmp/'' = Inl e"
  shows "load_excel_worksheet_to_table_local w p ws t
           = (Inl e, logger (Info_attempting_get p) w)"
  using assms by (simp add: load_excel_worksheet_to_table_local_def)

lemma valid_record_loaded [simp]: "valid_record (loaded w r) r' = valid_record w r'"
  by (simp add: valid_record_def sheet_table_def loaded_def)

lemma sheet_table_loaded [simp]: "sheet_table (loaded w r) r' = sheet_table w r'"
  by (simp add: sheet_table_def loaded_def)

lemma loaded_tables:
  "tables (loaded w r) = (tables w)(TARGET_TABLE r := sheet_table w r)"
  by (simp add: loaded_def)

lemma valid_record_logger [simp]: "valid_record (logger m w) r = valid_record w r"
  by (simp add: valid_record_def sheet_table_def)

lemma sheet_table_logger [simp]: "sheet_table (logger m w) r = sheet_table w r"
  by (simp add: sheet_table_def)

section \<open>The loop\<close>

lemma load_rows_valid:
  "list_all (valid_record w) rows \<Longrightarrow>
   load_rows w rows = (Inr (), fold (\<lambda>r v. loaded v r) rows w)"
proof (induction rows arbitrary: w)
  case Nil
  then show ?case by simp
next
  case (Cons r rows)
  from Cons.prems have v: "valid_record w r" and vs: "list_all (valid_record w) rows"
    by simp_all
  have "list_all (valid_record (loaded w r)) rows"
    using vs by (simp add: list_all_iff)
  from Cons.IH [OF this] show ?case
    by (simp add: load_valid [OF v])
qed

lemma load_rows_success_valid:
  "fst (load_rows w rows) = Inr u \<Longrightarrow> list_all (valid_record w) rows"
proof (induction rows arbitrary: w)
  case Nil
  then show ?case by simp
next
  case (Cons r rows)
  let ?l = "load_excel_worksheet_to_table_local w
             (STAGE_FILE_PATH r) (WORKSHEET_NAME r) (TARGET_TABLE r)"
  obtain b where b: "fst ?l = Inr b"
    using Cons.prems by (cases ?l; cases "fst ?l") auto
  then have v: "valid_record w r" by (rule load_success_valid)
  have l: "?l = (Inr True, loaded w r)" by (rule load_valid [OF v])
  have "fst (load_rows (loaded w r) rows) = Inr u"
    using Cons.prems by (simp add: l)
  from Cons.IH [OF this] v show ?case by (simp add: list_all_iff)
qed

lemma load_rows_append_fail:
  "load_rows w pre = (Inr (), wk) \<Longrightarrow>
   load_excel_worksheet_to_table_local wk
     (STAGE_FILE_PATH r) (WORKSHEET_NAME r) (TARGET_TABLE r) = (Inl e, w') \<Longrightarrow>
   load_rows w (pre @ r # post) = (Inl e, w')"
  by (induction pre arbitrary: w) (auto split: prod.splits sum.splits)

lemma fold_loaded_query [simp]:
  "query_result (fold (\<lambda>r v. loaded v r) rows w) = query_result w"
  by (induction rows arbitrary: w) (simp_all add: loaded_def)

lemma valid_record_fold [simp]:
  "valid_record (fold (\<lambda>r v. loaded v r) rows w) r' = valid_record w r'"
  by (induction rows arbitrary: w) simp_all

lemma sheet_table_fold [simp]:
  "sheet_table (fold (\<lambda>r v. loaded v r) rows w) r' = sheet_table w r'"
  by (induction rows arbitrary: w) simp_all

lemma fold_loaded_tables:
  "tables (fold (\<lambda>r v. loaded v r) rows w)
     = fold (\<lambda>r m. m(TARGET_TABLE r := sheet_table w r)) rows (tables w)"
proof (induction rows arbitrary: w)
  case Nil
  then show ?case by simp
next
  case (Cons r rows)
  show ?case by (simp add: Cons.IH) (simp add: loaded_def)
qed

lemma fold_loaded_log:
  "log (fold (\<lambda>r v. loaded v r) rows w) = log w @ concat (map record_log rows)"
  by (induction rows arbitrary: w) (simp_all add: loaded_def)

text \<open>Point updates applied in sequence: the last update of a key wins.\<close>

lemma fold_upd_apply:
  "fold (\<lambda>r m. m(k r := v r)) rows m x
     = (case find (\<lambda>r. k r = x) (rev rows) of None \<Rightarrow> m x | Some r \<Rightarrow> v r)"
  by (induction rows rule: rev_induct) auto

lemma fold_upd_idem:
  "fold (\<lambda>r m. m(k r := v r)) rows (fold (\<lambda>r m. m(k r := v r)) rows m)
     = fold (\<lambda>r m. m(k r := v r)) rows m"
  by (rule ext) (simp add: fold_upd_apply split: option.splits)

lemma fold_upd_other:
  "x \<notin> k ` set rows \<Longrightarrow> fold (\<lambda>r m. m(k r := v r)) rows m x = m x"
  by (induction rows arbitrary: m) simp_all

lemma fold_upd_distinct:
  "distinct (map k rows) \<Longrightarrow> r \<in> set rows \<Longrightarrow>
   fold (\<lambda>r m. m(k r := v r)) rows m (k r) = v r"
  by (induction rows arbitrary: m) (auto simp: fold_upd_other)

lemma fold_upd_in:
  assumes "x \<in> k ` set rows"
  shows "\<exists>r \<in> set rows. k r = x \<and> fold (\<lambda>r m. m(k r := v r)) rows m x = v r"
proof -
  obtain r where f: "find (\<lambda>r. k r = x) (rev rows) = Some r"
    using assms by (cases "find (\<lambda>r. k r = x) (rev rows)") (auto simp: find_None_iff)
  then obtain i where "i < length (rev rows)" and "k (rev rows ! i) = x"
    and "r = rev rows ! i"
    by (auto simp: find_Some_iff)
  then have "k r = x" and "r \<in> set rows"
    using nth_mem [of i "rev rows"] by simp_all
  moreover have "fold (\<lambda>r m. m(k r := v r)) rows m x = v r"
    by (simp add: fold_upd_apply f)
  ultimately show ?thesis by blast
qed

text \<open>A run over valid records.\<close>

lemma main_valid:
  assumes "query_result w = Inr rows" and "list_all (valid_record w) rows"
  shows "main w = (Inr success_status,
           logger Info_end (fold (\<lambda>r v. loaded v r) rows (logger (Info_found (length rows)) w)))"
proof -
  have "list_all (valid_record (logger (Info_found (length rows)) w)) rows"
    using assms(2) by (simp add: list_all_iff)
  from load_rows_valid [OF this] assms(1) show ?thesis
    by (simp add: main_def sql_collect_def)
qed

section \<open>Properties of one load\<close>

text \<open>
  C1. A load that returns leaves in the destination table exactly the named sheet:
  its first row as the column names, the rows after it as the body, in the sheet's
  order. The table's earlier contents do not enter the result.
\<close>

theorem load_success_table_contents:
  assumes "load_excel_worksheet_to_table_local w p ws t = (Inr b, w')"
    and "stage w p = Some (Xlsx wb)"
    and "map_of wb ws = Some sheet"
  shows "sheet \<noteq> [] \<and> tables w' t = Some \<lparr>columns = hd sheet, body = tl sheet\<rparr>"
  using assms
  by (auto simp: load_defs Let_def split: load_splits)

theorem load_success_table_contents_witness:
  "tables demo_world ''ORDER_DETAIL'' = Some old_table
   \<and> fst (load_excel_worksheet_to_table_local demo_world
            order_detail_path ''order_detail'' ''ORDER_DETAIL'') = Inr True
   \<and> tables (snd (load_excel_worksheet_to_table_local demo_world
            order_detail_path ''order_detail'' ''ORDER_DETAIL'')) ''ORDER_DETAIL''
       = Some \<lparr>columns = [StrCell ''ID'', StrCell ''NAME''],
               body = [[IntCell 1, StrCell ''Alice''], [IntCell 2, StrCell ''Bob'']]\<rparr>"
proof -
  let ?r = "load_excel_worksheet_to_table_local demo_world
              order_detail_path ''order_detail'' ''ORDER_DETAIL''"
  have f: "fst ?r = Inr True"
    using load_valid [of demo_world order_detail_row] by simp
  then have l: "?r = (Inr True, snd ?r)"
    by (simp add: prod_eq_iff)
  have s: "stage demo_world order_detail_path = Some (Xlsx order_detail_book)"
    by simp
  have m: "map_of order_detail_book ''order_detail'' = Some order_detail_sheet"
    by (simp add: order_detail_book_def)
  from load_success_table_contents [OF l s m] f show ?thesis
    by (simp add: order_detail_sheet_def)
qed

text \<open>
  C2, as the code has it. The stage fetch stands before the \<^verbatim>\<open>try\<close> statement. When
  the fetch succeeded and the deletion is not refused, the local file is gone after
  the load, whatever happened in between; when the fetch raises, the load ends there
  and the local files are as they were before the call.
\<close>

theorem load_local_file_after:
  "(\<not> get_fails w p \<and> stage w p \<noteq> None \<and> \<not> remove_fails w (local_path p)
      \<longrightarrow> local_files (snd (load_excel_worksheet_to_table_local w p ws t)) (local_path p)
            = None)
   \<and> (get_fails w p \<or> stage w p = None
      \<longrightarrow> fst (load_excel_worksheet_to_table_local w p ws t) = Inl StagingError
          \<and> local_files (snd (load_excel_worksheet_to_table_local w p ws t))
              = local_files w)"
  by (auto simp: load_defs Let_def split: load_splits)

theorem load_local_file_after_witness:
  "local_files (snd (load_excel_worksheet_to_table_local demo_world
       location_path ''Location'' ''LOCATION'')) ''/tmp/location.xlsx'' = None
   \<and> fst (load_excel_worksheet_to_table_local stale_world
       menu_path ''menu'' ''MENU'') = Inl StagingError
   \<and> local_files (snd (load_excel_worksheet_to_table_local stale_world
       menu_path ''menu'' ''MENU'')) = [''/tmp/menu.xlsx'' \<mapsto> Corrupt]"
  using load_local_file_after [of demo_world location_path "''Location''" "''LOCATION''"]
    load_local_file_after [of stale_world menu_path "''menu''" "''MENU''"]
  by (simp add: stale_world_def)

text \<open>
  The claim C2 as written fails where the fetch raises: a local file of that name that
  was there before the call is still there after it.
\<close>

theorem load_fetch_failure_keeps_local_file:
  "fst (load_excel_worksheet_to_table_local stale_world menu_path ''menu'' ''MENU'')
     = Inl StagingError
   \<and> local_files (snd (load_excel_worksheet_to_table_local stale_world
        menu_path ''menu'' ''MENU'')) (local_path menu_path) = Some Corrupt"
  by (simp add: load_excel_worksheet_to_table_local_def file_get_def stale_world_def)

text \<open>
  C4. When the fetched workbook has no sheet of exactly the requested name, the load
  raises and every table is as it was before; the error is the KeyError of the sheet
  lookup unless opening or deleting the local file is refused.
\<close>

theorem load_missing_worksheet:
  assumes "\<not> get_fails w p" and "stage w p = Some (Xlsx wb)" and "map_of wb ws = None"
  shows "isl (fst (load_excel_worksheet_to_table_local w p ws t))
     \<and> tables (snd (load_excel_worksheet_to_table_local w p ws t)) = tables w
     \<and> (\<not> open_fails w (local_path p) \<and> \<not> remove_fails w (local_path p)
         \<longrightarrow> fst (load_excel_worksheet_to_table_local w p ws t) = Inl (KeyError ws))"
  using assms
  by (auto simp: load_defs Let_def split: load_splits)

theorem load_missing_worksheet_witness:
  "map_of location_book ''location'' \<noteq> None
   \<and> map_of location_book ''Location'' = None
   \<and> fst (load_excel_worksheet_to_table_local demo_world
        location_path ''Location'' ''ORDER_DETAIL'') = Inl (KeyError ''Location'')
   \<and> tables (snd (load_excel_worksheet_to_table_local demo_world
        location_path ''Location'' ''ORDER_DETAIL'')) = [''ORDER_DETAIL'' \<mapsto> old_table]"
proof -
  have g: "\<not> get_fails demo_world location_path" by simp
  have s: "stage demo_world location_path = Some (Xlsx location_book)" by simp
  have m: "map_of location_book ''Location'' = None" by (simp add: location_book_def)
  from load_missing_worksheet [OF g s m, of "''ORDER_DETAIL''"] m show ?thesis
    by (simp add: location_book_def)
qed

text \<open>
  C7, as the code has it. An exception of the \<^verbatim>\<open>try\<close> body (opening, parsing,
  writing) is logged with the file's base name; then the cleanup runs and the
  exception is raised again, unless the deletion is refused, whose error is then the
  one raised. An exception of the stage fetch ends the load with neither the error
  message nor the cleanup. A load that returns has had no exception.
\<close>

theorem load_error_logged:
  "(\<forall>w2 e. file_get (logger (Info_attempting_get p) w) p ''/tmp/'' = Inr w2
          \<and> try_body w2 (local_path p) ws t = Inl e
      \<longrightarrow> log (snd (load_excel_worksheet_to_table_local w p ws t))
            = log w @ [Info_attempting_get p, Error_processing (basename p) e]
          \<and> (if remove_fails w (local_path p)
             then fst (load_excel_worksheet_to_table_local w p ws t) = Inl CleanupError
             else fst (load_excel_worksheet_to_table_local w p ws t) = Inl e
                \<and> local_files (snd (load_excel_worksheet_to_table_local w p ws t))
                     (local_path p) = None))
   \<and> (\<forall>e. file_get (logger (Info_attempting_get p) w) p ''/tmp/'' = Inl e
      \<longrightarrow> load_excel_worksheet_to_table_local w p ws t
            = (Inl e, logger (Info_attempting_get p) w))
   \<and> (\<forall>b. fst (load_excel_worksheet_to_table_local w p ws t) = Inr b
      \<longrightarrow> (\<exists>w2 w3. file_get (logger (Info_attempting_get p) w) p ''/tmp/'' = Inr w2
             \<and> try_body w2 (local_path p) ws t = Inr w3))"
proof (intro conjI allI impI)
  fix w2 e
  assume a: "file_get (logger (Info_attempting_get p) w) p ''/tmp/'' = Inr w2
     \<and> try_body w2 (local_path p) ws t = Inl e"
  then show "log (snd (load_excel_worksheet_to_table_local w p ws t))
            = log w @ [Info_attempting_get p, Error_processing (basename p) e]"
    by (auto simp: load_excel_worksheet_to_table_local_def file_get_def cleanup_def
          local_path_def Let_def split: load_splits)
  from a show "if remove_fails w (local_path p)
     then fst (load_excel_worksheet_to_table_local w p ws t) = Inl CleanupError
     else fst (load_excel_worksheet_to_table_local w p ws t) = Inl e
        \<and> local_files (snd (load_excel_worksheet_to_table_local w p ws t))
             (local_path p) = None"
    by (auto simp: load_excel_worksheet_to_table_local_def file_get_def cleanup_def
          local_path_def Let_def split: load_splits)
next
  fix e
  assume "file_get (logger (Info_attempting_get p) w) p ''/tmp/'' = Inl e"
  then show "load_excel_worksheet_to_table_local w p ws t
            = (Inl e, logger (Info_attempting_get p) w)"
    by (rule load_get_raises)
next
  fix b
  assume "fst (load_excel_worksheet_to_table_local w p ws t) = Inr b"
  then show "\<exists>w2 w3. file_get (logger (Info_attempting_get p) w) p ''/tmp/'' = Inr w2
             \<and> try_body w2 (local_path p) ws t = Inr w3"
    by (auto simp: load_excel_worksheet_to_table_local_def cleanup_def local_path_def
          Let_def split: load_splits)
qed

theorem load_error_logged_witness:
  "log (snd (load_excel_worksheet_to_table_local demo_world
          location_path ''Location'' ''LOCATION''))
     = [Info_attempting_get location_path,
        Error_processing ''location.xlsx'' (KeyError ''Location'')]
   \<and> fst (load_excel_worksheet_to_table_local demo_world
          location_path ''Location'' ''LOCATION'') = Inl (KeyError ''Location'')
   \<and> local_files (snd (load_excel_worksheet_to_table_local demo_world
          location_path ''Location'' ''LOCATION'')) ''/tmp/location.xlsx'' = None
   \<and> load_excel_worksheet_to_table_local stale_world menu_path ''menu'' ''MENU''
       = (Inl StagingError, logger (Info_attempting_get menu_path) stale_world)
   \<and> fst (load_excel_worksheet_to_table_local demo_world
          order_detail_path ''order_detail'' ''ORDER_DETAIL'') = Inr True
   \<and> (\<exists>w2 w3. file_get (logger (Info_attempting_get order_detail_path) demo_world)
                  order_detail_path ''/tmp/'' = Inr w2
              \<and> try_body w2 (local_path order_detail_path) ''order_detail'' ''ORDER_DETAIL''
                  = Inr w3)"
proof -
  let ?w2 = "(logger (Info_attempting_get location_path) demo_world)
               \<lparr>local_files := [''/tmp/location.xlsx'' \<mapsto> Xlsx location_book]\<rparr>"
  have g: "file_get (logger (Info_attempting_get location_path) demo_world)
             location_path ''/tmp/'' = Inr ?w2"
    by (simp add: file_get_def)
  have b: "try_body ?w2 (local_path location_path) ''Location'' ''LOCATION''
             = Inl (KeyError ''Location'')"
    by (simp add: try_body_def open_rb_def load_workbook_def getitem_def location_book_def)
  have n: "\<not> remove_fails demo_world (local_path location_path)"
    by simp
  have s: "file_get (logger (Info_attempting_get menu_path) stale_world) menu_path ''/tmp/''
             = Inl StagingError"
    by (simp add: file_get_def stale_world_def)
  have f: "fst (load_excel_worksheet_to_table_local demo_world
             order_detail_path ''order_detail'' ''ORDER_DETAIL'') = Inr True"
    using load_valid [of demo_world order_detail_row] by simp
  note t1 = load_error_logged
    [of location_path demo_world "''Location''" "''LOCATION''", THEN conjunct1, rule_format,
     OF conjI, OF g b]
  note t2 = load_error_logged
    [of menu_path stale_world "''menu''" "''MENU''", THEN conjunct2, THEN conjunct1,
     rule_format, OF s]
  note t3 = load_error_logged
    [of order_detail_path demo_world "''order_detail''" "''ORDER_DETAIL''",
     THEN conjunct2, THEN conjunct2, rule_format, OF f]
  from t1 t2 t3 f n show ?thesis by simp
qed

text \<open>
  The claim C7 as written fails at the stage fetch: its exception reaches the caller
  with no error message in the log (the log holds the one line written before the
  fetch).
\<close>

theorem load_fetch_failure_not_logged:
  "fst (load_excel_worksheet_to_table_local demo_world menu_path ''menu'' ''MENU'')
     = Inl StagingError
   \<and> log (snd (load_excel_worksheet_to_table_local demo_world menu_path ''menu'' ''MENU''))
     = [Info_attempting_get menu_path]"
  by (simp add: load_excel_worksheet_to_table_local_def file_get_def)

text \<open>
  C8, as the code has it. The deletion stands in the \<^verbatim>\<open>finally\<close> block with nothing
  around it. When the \<^verbatim>\<open>try\<close> body raised an error and the deletion is refused, the
  error that reaches the caller is the deletion's; the earlier one is in the log only.
  When nothing raised before, the refused deletion reaches the caller as well. An
  error of the stage fetch reaches the caller as it is, since no cleanup follows it.
\<close>

theorem load_cleanup_failure:
  "(\<forall>w2 e. file_get (logger (Info_attempting_get p) w) p ''/tmp/'' = Inr w2
          \<and> try_body w2 (local_path p) ws t = Inl e
          \<and> remove_fails w (local_path p)
      \<longrightarrow> fst (load_excel_worksheet_to_table_local w p ws t) = Inl CleanupError
          \<and> Error_processing (basename p) e
              \<in> set (log (snd (load_excel_worksheet_to_table_local w p ws t))))
   \<and> (\<forall>w2 w3. file_get (logger (Info_attempting_get p) w) p ''/tmp/'' = Inr w2
          \<and> try_body w2 (local_path p) ws t = Inr w3
          \<and> remove_fails w (local_path p)
      \<longrightarrow> fst (load_excel_worksheet_to_table_local w p ws t) = Inl CleanupError)
   \<and> (\<forall>e. file_get (logger (Info_attempting_get p) w) p ''/tmp/'' = Inl e
      \<longrightarrow> fst (load_excel_worksheet_to_table_local w p ws t) = Inl e)"
proof (intro conjI allI impI)
  fix w2 e
  assume a: "file_get (logger (Info_attempting_get p) w) p ''/tmp/'' = Inr w2
     \<and> try_body w2 (local_path p) ws t = Inl e \<and> remove_fails w (local_path p)"
  then show "fst (load_excel_worksheet_to_table_local w p ws t) = Inl CleanupError"
    by (auto simp: load_excel_worksheet_to_table_local_def file_get_def cleanup_def
          local_path_def Let_def split: load_splits)
  from a show "Error_processing (basename p) e
      \<in> set (log (snd (load_excel_worksheet_to_table_local w p ws t)))"
    by (auto simp: load_excel_worksheet_to_table_local_def file_get_def cleanup_def
          local_path_def Let_def split: load_splits)
next
  fix w2 w3
  assume "file_get (logger (Info_attempting_get p) w) p ''/tmp/'' = Inr w2
     \<and> try_body w2 (local_path p) ws t = Inr w3 \<and> remove_fails w (local_path p)"
  then show "fst (load_excel_worksheet_to_table_local w p ws t) = Inl CleanupError"
    by (auto simp: load_defs Let_def split: load_splits)
next
  fix e
  assume "file_get (logger (Info_attempting_get p) w) p ''/tmp/'' = Inl e"
  then show "fst (load_excel_worksheet_to_table_local w p ws t) = Inl e"
    by (simp add: load_get_raises)
qed

lemma remove_fail_world_fields [simp]:
  "stage remove_fail_world = stage demo_world"
  "local_files remove_fail_world = Map.empty"
  "tables remove_fail_world = tables demo_world"
  "log remove_fail_world = []"
  "get_fails remove_fail_world = (\<lambda>_. False)"
  "open_fails remove_fail_world = (\<lambda>_. False)"
  "write_fails remove_fail_world = (\<lambda>_. False)"
  "remove_fails remove_fail_world = (\<lambda>_. True)"
  by (simp_all add: remove_fail_world_def)

theorem load_cleanup_failure_witness:
  "fst (load_excel_worksheet_to_table_local remove_fail_world
          location_path ''Location'' ''LOCATION'') = Inl CleanupError
   \<and> Error_processing ''location.xlsx'' (KeyError ''Location'')
       \<in> set (log (snd (load_excel_worksheet_to_table_local remove_fail_world
                 location_path ''Location'' ''LOCATION'')))
   \<and> fst (load_excel_worksheet_to_table_local remove_fail_world
          location_path ''location'' ''LOCATION'') = Inl CleanupError
   \<and> fst (load_excel_worksheet_to_table_local remove_fail_world
          menu_path ''menu'' ''MENU'') = Inl StagingError"
proof -
  let ?w2 = "(logger (Info_attempting_get location_path) remove_fail_world)
               \<lparr>local_files := [''/tmp/location.xlsx'' \<mapsto> Xlsx location_book]\<rparr>"
  let ?w3 = "logger (Info_loaded ''LOCATION'')
               (?w2\<lparr>tables := (tables ?w2)(''LOCATION'' \<mapsto>
                  \<lparr>columns = [StrCell ''LOCATION_ID'', StrCell ''CITY''],
                   body = [[IntCell 7, StrCell ''Paris'']]\<rparr>)\<rparr>)"
  have g: "file_get (logger (Info_attempting_get location_path) remove_fail_world)
             location_path ''/tmp/'' = Inr ?w2"
    by (simp add: file_get_def)
  have b: "try_body ?w2 (local_path location_path) ''Location'' ''LOCATION''
             = Inl (KeyError ''Location'')"
    by (simp add: try_body_def open_rb_def load_workbook_def getitem_def location_book_def)
  have c: "try_body ?w2 (local_path location_path) ''location'' ''LOCATION'' = Inr ?w3"
    by (simp add: try_body_def open_rb_def load_workbook_def getitem_def location_book_def
          location_sheet_def DataFrame_def save_as_table_def)
  have r: "remove_fails remove_fail_world (local_path location_path)"
    by simp
  have s: "file_get (logger (Info_attempting_get menu_path) remove_fail_world)
             menu_path ''/tmp/'' = Inl StagingError"
    by (simp add: file_get_def)
  note t1 = load_cleanup_failure
    [of location_path remove_fail_world "''Location''" "''LOCATION''", THEN conjunct1,
     rule_format, OF conjI, OF g conjI, OF b r]
  note t2 = load_cleanup_failure
    [of location_path remove_fail_world "''location''" "''LOCATION''", THEN conjunct2,
     THEN conjunct1, rule_format, OF conjI, OF g conjI, OF c r]
  note t3 = load_cleanup_failure
    [of menu_path remove_fail_world "''menu''" "''MENU''", THEN conjunct2, THEN conjunct2,
     rule_format, OF s]
  from t1 t2 t3 show ?thesis by simp
qed

text \<open>
  The claim C8 as written fails in its first half: the sheet lookup raises a KeyError,
  which is logged, the deletion is refused, and the caller gets the deletion's error.
\<close>

theorem load_cleanup_failure_masks_error:
  "try_body (projr (file_get (logger (Info_attempting_get location_path) remove_fail_world)
                      location_path ''/tmp/''))
      (local_path location_path) ''Location'' ''LOCATION'' = Inl (KeyError ''Location'')
   \<and> log (snd (load_excel_worksheet_to_table_local remove_fail_world
          location_path ''Location'' ''LOCATION''))
     = [Info_attempting_get location_path,
        Error_processing ''location.xlsx'' (KeyError ''Location'')]
   \<and> fst (load_excel_worksheet_to_table_local remove_fail_world
          location_path ''Location'' ''LOCATION'') = Inl CleanupError"
  by (simp add: load_excel_worksheet_to_table_local_def file_get_def try_body_def open_rb_def
        load_workbook_def getitem_def cleanup_def location_book_def Let_def)

text \<open>
  C10, as the code has it. A sheet that yields no row: taking the header raises
  StopIteration before any data frame is built or written. The load raises, the
  error is logged, and every table is as it was. With the deletion not refused
  the error raised is that StopIteration and the staged local file is gone; with the
  deletion refused the caller gets the deletion's error and the staged file is still
  there.
\<close>

theorem load_empty_worksheet:
  assumes "\<not> get_fails w p" and "stage w p = Some (Xlsx wb)" and "map_of wb ws = Some []"
    and "\<not> open_fails w (local_path p)"
  shows "isl (fst (load_excel_worksheet_to_table_local w p ws t))
     \<and> tables (snd (load_excel_worksheet_to_table_local w p ws t)) = tables w
     \<and> log (snd (load_excel_worksheet_to_table_local w p ws t))
         = log w @ [Info_attempting_get p, Error_processing (basename p) StopIteration]
     \<and> (if remove_fails w (local_path p)
        then fst (load_excel_worksheet_to_table_local w p ws t) = Inl CleanupError
           \<and> local_files (snd (load_excel_worksheet_to_table_local w p ws t)) (local_path p)
               = Some (Xlsx wb)
        else fst (load_excel_worksheet_to_table_local w p ws t) = Inl StopIteration
           \<and> local_files (snd (load_excel_worksheet_to_table_local w p ws t)) (local_path p)
               = None)"
  using assms
  by (auto simp: load_defs Let_def split: load_splits)

theorem load_empty_worksheet_witness:
  "map_of order_detail_book ''blank'' = Some []
   \<and> fst (load_excel_worksheet_to_table_local demo_world
          order_detail_path ''blank'' ''ORDER_DETAIL'') = Inl StopIteration
   \<and> tables (snd (load_excel_worksheet_to_table_local demo_world
          order_detail_path ''blank'' ''ORDER_DETAIL'')) = [''ORDER_DETAIL'' \<mapsto> old_table]
   \<and> log (snd (load_excel_worksheet_to_table_local demo_world
          order_detail_path ''blank'' ''ORDER_DETAIL''))
       = [Info_attempting_get order_detail_path,
          Error_processing ''order_detail.xlsx'' StopIteration]
   \<and> local_files (snd (load_excel_worksheet_to_table_local demo_world
          order_detail_path ''blank'' ''ORDER_DETAIL'')) ''/tmp/order_detail.xlsx'' = None
   \<and> tables (snd (load_excel_worksheet_to_table_local remove_fail_world
          order_detail_path ''blank'' ''ORDER_DETAIL'')) = [''ORDER_DETAIL'' \<mapsto> old_table]"
proof -
  have g: "\<not> get_fails demo_world order_detail_path" by simp
  have s: "stage demo_world order_detail_path = Some (Xlsx order_detail_book)" by simp
  have m: "map_of order_detail_book ''blank'' = Some []" by (simp add: order_detail_book_def)
  have f: "\<not> open_fails demo_world (local_path order_detail_path)" by simp
  have g': "\<not> get_fails remove_fail_world order_detail_path" by simp
  have s': "stage remove_fail_world order_detail_path = Some (Xlsx order_detail_book)" by simp
  have f': "\<not> open_fails remove_fail_world (local_path order_detail_path)" by simp
  from load_empty_worksheet [OF g s m f, of "''ORDER_DETAIL''"]
    load_empty_worksheet [OF g' s' m f', of "''ORDER_DETAIL''"] m
  show ?thesis by simp
qed

text \<open>
  The claim C10 as written fails where the deletion is refused: the sheet has no row,
  the caller gets the deletion's error, and the staged local file is still there.
\<close>

theorem load_empty_worksheet_deletion_refused:
  "map_of order_detail_book ''blank'' = Some []
   \<and> fst (load_excel_worksheet_to_table_local remove_fail_world
          order_detail_path ''blank'' ''ORDER_DETAIL'') = Inl CleanupError
   \<and> local_files (snd (load_excel_worksheet_to_table_local remove_fail_world
          order_detail_path ''blank'' ''ORDER_DETAIL'')) ''/tmp/order_detail.xlsx''
       = Some (Xlsx order_detail_book)"
  by (simp add: load_excel_worksheet_to_table_local_def file_get_def try_body_def open_rb_def
        load_workbook_def getitem_def cleanup_def order_detail_book_def Let_def)

section \<open>Properties of a run\<close>

text \<open>
  C6. When the mapping query raises, the run raises that error and the world is as it
  was: no log line, no local file, no table is touched.
\<close>

theorem main_query_fails:
  "query_result w = Inl e \<Longrightarrow> main w = (Inl e, w)"
  by (simp add: main_def sql_collect_def)

theorem main_query_fails_witness:
  "query_result query_fail_world = Inl QueryError
   \<and> main query_fail_world = (Inl QueryError, query_fail_world)"
proof -
  have q: "query_result query_fail_world = Inl QueryError"
    by (simp add: query_fail_world_def)
  from main_query_fails [OF q] q show ?thesis by simp
qed

text \<open>
  C5. When the loads of the records before some record return and the load of that
  record raises, the run ends with that error in the very world that load left: nothing
  is logged, staged, parsed or written for any later record.
\<close>

theorem main_aborts_at_first_failure:
  assumes "query_result w = Inr (pre @ r # post)"
    and "load_rows (logger (Info_found (length (pre @ r # post))) w) pre = (Inr (), wk)"
    and "load_excel_worksheet_to_table_local wk
           (STAGE_FILE_PATH r) (WORKSHEET_NAME r) (TARGET_TABLE r) = (Inl e, w')"
  shows "main w = (Inl e, w')"
  using load_rows_append_fail [OF assms(2,3), of post] assms(1)
  by (simp add: main_def sql_collect_def)

lemma write_fail_world_fields [simp]:
  "stage write_fail_world = stage demo_world"
  "local_files write_fail_world = Map.empty"
  "tables write_fail_world = tables demo_world"
  "log write_fail_world = []"
  "query_result write_fail_world = Inr [order_detail_row, location_row]"
  "get_fails write_fail_world = (\<lambda>_. False)"
  "open_fails write_fail_world = (\<lambda>_. False)"
  "write_fails write_fail_world = (\<lambda>t. t = ''ORDER_DETAIL'')"
  "remove_fails write_fail_world = (\<lambda>_. False)"
  by (simp_all add: write_fail_world_def)

theorem main_aborts_at_first_failure_witness:
  "query_result write_fail_world = Inr [order_detail_row, location_row]
   \<and> fst (main write_fail_world) = Inl WriteError
   \<and> log (snd (main write_fail_world))
       = [Info_found 2, Info_attempting_get order_detail_path,
          Error_processing ''order_detail.xlsx'' WriteError]
   \<and> tables (snd (main write_fail_world)) = [''ORDER_DETAIL'' \<mapsto> old_table]
   \<and> local_files (snd (main write_fail_world)) ''/tmp/location.xlsx'' = None"
proof -
  let ?w1 = "logger (Info_found (length ([] @ order_detail_row # [location_row])))
               write_fail_world"
  let ?l = "load_excel_worksheet_to_table_local ?w1
              (STAGE_FILE_PATH order_detail_row) (WORKSHEET_NAME order_detail_row)
              (TARGET_TABLE order_detail_row)"
  have q: "query_result write_fail_world = Inr ([] @ order_detail_row # [location_row])"
    by simp
  have p: "load_rows ?w1 [] = (Inr (), ?w1)"
    by simp
  have f: "fst ?l = Inl WriteError"
    by (simp add: load_defs Let_def order_detail_book_def order_detail_sheet_def)
  have s: "log (snd ?l) = [Info_found 2, Info_attempting_get order_detail_path,
             Error_processing ''order_detail.xlsx'' WriteError]
           \<and> tables (snd ?l) = [''ORDER_DETAIL'' \<mapsto> old_table]
           \<and> local_files (snd ?l) ''/tmp/location.xlsx'' = None"
    by (simp add: load_defs Let_def order_detail_book_def order_detail_sheet_def)
  have l: "?l = (Inl WriteError, snd ?l)"
    using f by (simp add: prod_eq_iff)
  from main_aborts_at_first_failure [OF q p l] s show ?thesis
    by simp
qed

text \<open>
  C3, as the code has it. When the resolver returns N records and the load of each
  one returns (its file is on the stage, its sheet is there with a header row, and no
  fetch, open, write or deletion is refused), the run returns the success status. Its
  log shows one load per record in the resolver's order, each one a fetch followed by
  a completed table write, so N writes are made; the tables afterwards are the old
  ones with the N writes applied in that order. The tables written are those the
  records name: each holds the sheet of a record naming it, and every other table is
  as it was. They are N tables exactly when the N target names differ from each
  other, and then each holds the sheet of its own record.
\<close>

theorem main_loads_every_record:
  assumes "query_result w = Inr rows" and "list_all (valid_record w) rows"
  shows "fst (main w) = Inr success_status
     \<and> log (snd (main w))
         = log w @ [Info_found (length rows)] @ concat (map record_log rows) @ [Info_end]
     \<and> tables (snd (main w))
         = fold (\<lambda>r m. m(TARGET_TABLE r := sheet_table w r)) rows (tables w)
     \<and> (\<forall>t. t \<notin> TARGET_TABLE ` set rows \<longrightarrow> tables (snd (main w)) t = tables w t)
     \<and> (\<forall>t \<in> TARGET_TABLE ` set rows.
           \<exists>r \<in> set rows. TARGET_TABLE r = t \<and> tables (snd (main w)) t = sheet_table w r)
     \<and> ((card (TARGET_TABLE ` set rows) = length rows) = distinct (map TARGET_TABLE rows))
     \<and> (distinct (map TARGET_TABLE rows) \<longrightarrow>
          (\<forall>r \<in> set rows. tables (snd (main w)) (TARGET_TABLE r) = sheet_table w r))"
proof -
  note m = main_valid [OF assms]
  have t: "tables (snd (main w))
         = fold (\<lambda>r m. m(TARGET_TABLE r := sheet_table w r)) rows (tables w)"
    by (simp add: m fold_loaded_tables)
  have d: "tables (snd (main w)) (TARGET_TABLE r) = sheet_table w r"
    if "distinct (map TARGET_TABLE rows)" "r \<in> set rows" for r
    using that by (simp add: t fold_upd_distinct)
  have o: "tables (snd (main w)) x = tables w x" if "x \<notin> TARGET_TABLE ` set rows" for x
    using that by (simp add: t fold_upd_other)
  have i: "\<exists>r \<in> set rows. TARGET_TABLE r = x \<and> tables (snd (main w)) x = sheet_table w r"
    if "x \<in> TARGET_TABLE ` set rows" for x
    unfolding t using that by (rule fold_upd_in)
  have c: "(card (TARGET_TABLE ` set rows) = length rows) = distinct (map TARGET_TABLE rows)"
    using card_distinct [of "map TARGET_TABLE rows"] distinct_card [of "map TARGET_TABLE rows"]
    by auto
  have l: "log (snd (main w))
         = log w @ [Info_found (length rows)] @ concat (map record_log rows) @ [Info_end]"
    by (simp add: m fold_loaded_log)
  have f: "fst (main w) = Inr success_status" by (simp add: m)
  from f l t o i c d show ?thesis by blast
qed

theorem main_loads_every_record_witness:
  "query_result demo_world = Inr [order_detail_row, location_row]
   \<and> list_all (valid_record demo_world) [order_detail_row, location_row]
   \<and> fst (main demo_world) = Inr ''SUCCESS: Excel files loaded into Snowflake tables.''
   \<and> log (snd (main demo_world))
       = [Info_found 2,
          Info_attempting_get order_detail_path, Info_loaded ''ORDER_DETAIL'',
          Info_attempting_get location_path, Info_loaded ''LOCATION'',
          Info_end]
   \<and> tables (snd (main demo_world))
       = [''ORDER_DETAIL'' \<mapsto>
            \<lparr>columns = [StrCell ''ID'', StrCell ''NAME''],
             body = [[IntCell 1, StrCell ''Alice''], [IntCell 2, StrCell ''Bob'']]\<rparr>,
          ''LOCATION'' \<mapsto>
            \<lparr>columns = [StrCell ''LOCATION_ID'', StrCell ''CITY''],
             body = [[IntCell 7, StrCell ''Paris'']]\<rparr>]
   \<and> card (TARGET_TABLE ` set [order_detail_row, location_row]) = 2"
proof -
  have q: "query_result demo_world = Inr [order_detail_row, location_row]"
    by simp
  have v: "list_all (valid_record demo_world) [order_detail_row, location_row]"
    by simp
  have d: "distinct (map TARGET_TABLE [order_detail_row, location_row])"
    by simp
  note t = main_loads_every_record [OF q v]
  from t have "fst (main demo_world) = Inr success_status"
    and "log (snd (main demo_world))
         = log demo_world @ [Info_found (length [order_detail_row, location_row])]
           @ concat (map record_log [order_detail_row, location_row]) @ [Info_end]"
    and "tables (snd (main demo_world))
         = fold (\<lambda>r m. m(TARGET_TABLE r := sheet_table demo_world r))
             [order_detail_row, location_row] (tables demo_world)"
    and "(card (TARGET_TABLE ` set [order_detail_row, location_row])
            = length [order_detail_row, location_row])
         = distinct (map TARGET_TABLE [order_detail_row, location_row])"
    by blast+
  with q v d show ?thesis
    by (simp add: record_log_def success_status_def)
qed

text \<open>
  The claim C3 as written fails for records that name a file on the stage and a sheet
  of its workbook. A sheet without rows makes the run raise StopIteration; a
  refused table write makes it raise the write error, and no later record is loaded;
  two records with one target name make a run that returns after writing one table,
  not two.
\<close>

theorem main_existing_sheets_not_enough:
  "query_result blank_world = Inr [blank_row]
   \<and> stage blank_world (STAGE_FILE_PATH blank_row) = Some (Xlsx order_detail_book)
   \<and> map_of order_detail_book (WORKSHEET_NAME blank_row) = Some []
   \<and> fst (main blank_world) = Inl StopIteration
   \<and> fst (main write_fail_world) = Inl WriteError
   \<and> query_result same_target_world = Inr [order_detail_row, location_again_row]
   \<and> fst (main same_target_world) = Inr success_status
   \<and> tables (snd (main same_target_world))
       = [''ORDER_DETAIL'' \<mapsto>
            \<lparr>columns = [StrCell ''LOCATION_ID'', StrCell ''CITY''],
             body = [[IntCell 7, StrCell ''Paris'']]\<rparr>]"
proof -
  have b: "fst (main blank_world) = Inl StopIteration"
    by (simp add: main_def sql_collect_def blank_world_def blank_row_def load_defs Let_def
          order_detail_book_def)
  have w: "fst (main write_fail_world) = Inl WriteError"
    by (simp add: main_def sql_collect_def load_defs Let_def order_detail_book_def
          order_detail_sheet_def)
  have q: "query_result same_target_world = Inr [order_detail_row, location_again_row]"
    by (simp add: same_target_world_def)
  have "valid_record demo_world location_again_row"
    by (simp add: valid_record_def sheet_table_def location_again_row_def location_book_def
          location_sheet_def)
  then have v: "list_all (valid_record same_target_world) [order_detail_row, location_again_row]"
    using demo_valid(1)
    by (simp add: valid_record_def sheet_table_def same_target_world_def)
  have s: "fst (main same_target_world) = Inr success_status"
    by (simp add: main_valid [OF q v])
  have t: "tables (snd (main same_target_world))
       = [''ORDER_DETAIL'' \<mapsto>
            \<lparr>columns = [StrCell ''LOCATION_ID'', StrCell ''CITY''],
             body = [[IntCell 7, StrCell ''Paris'']]\<rparr>]"
  proof -
    have st: "sheet_table same_target_world = sheet_table demo_world"
      by (rule ext) (simp add: sheet_table_def same_target_world_def)
    have tb: "tables same_target_world = tables demo_world"
      by (simp add: same_target_world_def)
    have la: "sheet_table demo_world location_again_row
       = Some \<lparr>columns = [StrCell ''LOCATION_ID'', StrCell ''CITY''],
               body = [[IntCell 7, StrCell ''Paris'']]\<rparr>"
      by (simp add: sheet_table_def location_again_row_def location_book_def
            location_sheet_def)
    have tt: "TARGET_TABLE location_again_row = ''ORDER_DETAIL''"
      by (simp add: location_again_row_def)
    show ?thesis
      by (simp add: main_valid [OF q v] loaded_tables st tb la tt)
  qed
  from b w q s t show ?thesis
    by (simp add: blank_world_def blank_row_def order_detail_book_def)
qed

text \<open>
  C9. After a run that returned, a second run from the world the first one left
  returns as well and leaves every destination table as the first run left it.
\<close>

theorem main_twice_same_tables:
  assumes "main w = (Inr s, w1)"
  shows "fst (main w1) = Inr s \<and> tables (snd (main w1)) = tables w1"
proof -
  obtain rows where q: "query_result w = Inr rows"
    using assms by (cases "query_result w") (auto simp: main_def sql_collect_def)
  let ?w0 = "logger (Info_found (length rows)) w"
  obtain u where "fst (load_rows ?w0 rows) = Inr u"
    using assms q by (auto simp: main_def sql_collect_def split: prod.splits sum.splits)
  then have "list_all (valid_record ?w0) rows"
    by (rule load_rows_success_valid)
  then have v: "list_all (valid_record w) rows"
    by (simp add: list_all_iff)
  have w1: "w1 = logger Info_end (fold (\<lambda>r v. loaded v r) rows ?w0)"
    and s: "s = success_status"
    using assms main_valid [OF q v] by simp_all
  have q1: "query_result w1 = Inr rows"
    by (simp add: w1 q)
  have v1: "list_all (valid_record w1) rows"
    using v by (simp add: w1 list_all_iff)
  have t1: "tables w1 = fold (\<lambda>r m. m(TARGET_TABLE r := sheet_table w r)) rows (tables w)"
    by (simp add: w1 fold_loaded_tables)
  note m = main_valid [OF q1 v1]
  have st: "sheet_table w1 = sheet_table w"
    by (rule ext) (simp add: w1)
  have "tables (snd (main w1))
         = fold (\<lambda>r m. m(TARGET_TABLE r := sheet_table w r)) rows (tables w1)"
    by (simp add: m fold_loaded_tables st)
  then have "tables (snd (main w1)) = tables w1"
    unfolding t1 by (simp only: fold_upd_idem)
  then show ?thesis by (simp add: m s)
qed

theorem main_twice_same_tables_witness:
  "fst (main demo_world) = Inr success_status
   \<and> tables (snd (main demo_world)) \<noteq> tables demo_world
   \<and> fst (main (snd (main demo_world))) = Inr success_status
   \<and> tables (snd (main (snd (main demo_world)))) = tables (snd (main demo_world))"
proof -
  have q: "query_result demo_world = Inr [order_detail_row, location_row]"
    by simp
  have v: "list_all (valid_record demo_world) [order_detail_row, location_row]"
    by simp
  note m = main_valid [OF q v]
  have f: "fst (main demo_world) = Inr success_status"
    by (simp add: m)
  have "tables (snd (main demo_world)) ''LOCATION'' \<noteq> tables demo_world ''LOCATION''"
    by (simp add: m loaded_tables)
  then have n: "tables (snd (main demo_world)) \<noteq> tables demo_world"
    by metis
  have h: "main demo_world = (Inr success_status, snd (main demo_world))"
    using f by (simp add: prod_eq_iff)
  from main_twice_same_tables [OF h] f n show ?thesis
    by simp
qed

end
